theory Spec2Isabelle
  imports Main
begin

section \<open>Python values used by the LDAP module\<close>

text \<open>
  Exceptions that the module raises or catches. \<open>LDAPException\<close> stands for every
  exception of the ldap3 hierarchy, \<open>OtherException\<close> for any exception outside it.
\<close>

datatype py_exn = KeyError | IndexError | ValueError | UnsupportedField
  | ConnectionError | LDAPException | OtherException

text \<open>Truthiness of an optional string: \<open>None\<close> and the empty string are falsy.\<close>

fun truthy :: "string option \<Rightarrow> bool" where
  "truthy None = False"
| "truthy (Some s) = (s \<noteq> [])"

text \<open>The expression \<open>a or b\<close> on optional strings.\<close>

definition py_or :: "string option \<Rightarrow> string option \<Rightarrow> string option" where
  "py_or a b = (if truthy a then a else b)"

text \<open>The substring test \<open>sub in s\<close>.\<close>

fun contains :: "string \<Rightarrow> string \<Rightarrow> bool" where
  "contains sub [] = (sub = [])"
| "contains sub (c # cs) = (take (length sub) (c # cs) = sub \<or> contains sub cs)"

subsection \<open>\<open>str.format\<close>\<close>

text \<open>
  \<open>str.format\<close> on string arguments, for format strings built from literal text, the
  escapes \<open>{{\<close> and \<open>}}\<close>, and replacement fields that are empty (automatic numbering),
  a decimal index or a keyword. A field with a conversion, a format specification, an
  attribute or an index (one of the characters \<open>! : . [\<close>) is outside this fragment
  and yields \<open>UnsupportedField\<close>.
\<close>

datatype numbering = Unnumbered | Auto nat | Manual

datatype scan = Lit | Opened | Closed | Field string

definition is_digit :: "char \<Rightarrow> bool" where
  "is_digit c = (c \<in> set ''0123456789'')"

definition digit_val :: "char \<Rightarrow> nat" where
  "digit_val c = (of_char c - of_char CHR ''0'')"

definition index_of_digits :: "string \<Rightarrow> nat" where
  "index_of_digits ds = foldl (\<lambda>n c. 10 * n + digit_val c) 0 ds"

definition positional :: "string list \<Rightarrow> nat \<Rightarrow> py_exn + string" where
  "positional args i = (if i < length args then Inr (args ! i) else Inl IndexError)"

definition get_field ::
  "string list \<Rightarrow> (string \<rightharpoonup> string) \<Rightarrow> numbering \<Rightarrow> string \<Rightarrow> py_exn + (string \<times> numbering)" where
  "get_field args kwargs m fname =
     (if fname = [] then
        (case m of
           Manual \<Rightarrow> Inl ValueError
         | Unnumbered \<Rightarrow> map_sum id (\<lambda>v. (v, Auto 1)) (positional args 0)
         | Auto n \<Rightarrow> map_sum id (\<lambda>v. (v, Auto (Suc n))) (positional args n))
      else if list_all is_digit fname then
        (case m of
           Auto n \<Rightarrow> Inl ValueError
         | _ \<Rightarrow> map_sum id (\<lambda>v. (v, Manual)) (positional args (index_of_digits fname)))
      else
        (case kwargs fname of
           None \<Rightarrow> Inl KeyError
         | Some v \<Rightarrow> Inr (v, m)))"

definition emit :: "string \<Rightarrow> py_exn + string \<Rightarrow> py_exn + string" where
  "emit s r = map_sum id (\<lambda>t. s @ t) r"

fun format_scan ::
  "string list \<Rightarrow> (string \<rightharpoonup> string) \<Rightarrow> numbering \<Rightarrow> scan \<Rightarrow> string \<Rightarrow> py_exn + string" where
  "format_scan args kwargs m Lit [] = Inr []"
| "format_scan args kwargs m Opened [] = Inl ValueError"
| "format_scan args kwargs m Closed [] = Inl ValueError"
| "format_scan args kwargs m (Field f) [] = Inl ValueError"
| "format_scan args kwargs m Lit (c # cs) =
     (if c = CHR ''{'' then format_scan args kwargs m Opened cs
      else if c = CHR ''}'' then format_scan args kwargs m Closed cs
      else emit [c] (format_scan args kwargs m Lit cs))"
| "format_scan args kwargs m Closed (c # cs) =
     (if c = CHR ''}'' then emit [c] (format_scan args kwargs m Lit cs)
      else Inl ValueError)"
| "format_scan args kwargs m Opened (c # cs) =
     (if c = CHR ''{'' then emit [c] (format_scan args kwargs m Lit cs)
      else if c = CHR ''}'' then
        (case get_field args kwargs m [] of
           Inl e \<Rightarrow> Inl e
         | Inr (v, m') \<Rightarrow> emit v (format_scan args kwargs m' Lit cs))
      else if c \<in> set ''!:.['' then Inl UnsupportedField
      else format_scan args kwargs m (Field [c]) cs)"
| "format_scan args kwargs m (Field f) (c # cs) =
     (if c = CHR ''}'' then
        (case get_field args kwargs m f of
           Inl e \<Rightarrow> Inl e
         | Inr (v, m') \<Rightarrow> emit v (format_scan args kwargs m' Lit cs))
      else if c = CHR ''{'' then Inl ValueError
      else if c \<in> set ''!:.['' then Inl UnsupportedField
      else format_scan args kwargs m (Field (f @ [c])) cs)"

definition py_format :: "string \<Rightarrow> string list \<Rightarrow> (string \<rightharpoonup> string) \<Rightarrow> py_exn + string" where
  "py_format s args kwargs = format_scan args kwargs Unnumbered Lit s"

section \<open>Data model\<close>

type_synonym datetime = int

text \<open>
  \<open>LDAPConfig\<close>: the fields the module reads and writes. \<open>attr_mapping\<close> is the
  dictionary of logical field names to directory attribute names, in insertion order.
\<close>

record ldap_config =
  cfg_id :: nat
  cfg_name :: string
  server_host :: string
  server_port :: int
  use_ssl :: bool
  bind_dn :: "string option"
  bind_password :: "string option"
  search_base :: string
  search_filter :: string
  user_dn_template :: "string option"
  attr_mapping :: "(string \<times> string) list"
  enabled :: bool
  auto_create_user :: bool
  sync_enabled :: bool
  sync_interval :: int
  cfg_sync_status :: string
  cfg_last_sync_time :: "datetime option"

text \<open>\<open>attr_mapping.get(key, default)\<close>.\<close>

definition mapping_get :: "(string \<times> string) list \<Rightarrow> string \<Rightarrow> string \<Rightarrow> string" where
  "mapping_get m k d = (case map_of m k of None \<Rightarrow> d | Some v \<Rightarrow> v)"

text \<open>
  A directory entry: its DN and its attributes. The value of an attribute is a single
  value or a list of values.
\<close>

datatype attr_value = Single string | Multi "string list"

record ldap_entry =
  entry_dn :: string
  entry_attributes :: "(string \<times> attr_value) list"

text \<open>
  The dictionary built for one directory entry (\<open>user_info\<close> in the authenticator,
  \<open>user_data\<close> in the sync service, \<open>ldap_data\<close> in the user service). Each key is a
  field; \<open>None\<close> means that the key is absent, and for the keys whose value may be
  Python's \<open>None\<close> the inner option is that value.
\<close>

record ldap_data =
  d_dn :: "string option"
  d_username :: "string option option"
  d_email :: "string option option"
  d_nickname :: "string option option"
  d_first_name :: "string option option"
  d_last_name :: "string option option"
  d_is_active :: "bool option"
  d_attributes :: "(string \<times> string option) list option"

text \<open>
  \<open>LDAPUser\<close>: one row of the local mirror. \<open>lu_id\<close> is the primary key \<open>id\<close>.
  Identifiers are opaque: \<open>get_uuid()\<close> is a counter (\<open>next_id\<close> below), so a new
  identifier differs from every identifier handed out before.
\<close>

record ldap_user =
  lu_id :: nat
  ldap_config_id :: nat
  ldap_dn :: string
  ldap_username :: "string option"
  email :: "string option"
  nickname :: "string option"
  first_name :: "string option"
  last_name :: "string option"
  ldap_attributes :: "(string \<times> string option) list"
  is_active :: bool
  last_sync_time :: datetime
  sync_status :: string
  user_id :: "string option"
  create_date :: datetime
  update_date :: datetime

section \<open>The environment: directory server, store faults, local accounts\<close>

datatype search_scope = SUBTREE | BASE

datatype 'a outcome = Returned 'a | RaisedLDAP | RaisedOther

text \<open>What the module sends to the directory server, in order.\<close>

datatype net_event =
    Bind "string option" "string option" bool
  | Unbind
  | Search string string search_scope "string list"

text \<open>
  \<open>account_by_email\<close> and \<open>account_save\<close> are \<open>UserService.query(email=...)\<close> (the id of
  the first local account with that email) and \<open>UserService.save\<close> (the id of the
  account it created); \<open>config_defaults\<close> holds the column defaults of \<open>LDAPConfig\<close>.
  Both belong to modules outside the LDAP sources.

  The statements sent to the relational store. Every service method wraps its
  statement in \<open>try ... except Exception\<close>; \<open>db_fault\<close> says for which statements
  the store raises.
\<close>

datatype db_op =
    OpGetActiveConfig
  | OpCreateConfig
  | OpUpdateConfig nat
  | OpUpdateSyncStatus nat string
  | OpGetByDn nat string
  | OpGetByUsername nat "string option"
  | OpGetByEmail nat "string option"
  | OpGetById nat
  | OpUpdateUser nat
  | OpCreateUser nat string
  | OpLinkUser nat
  | OpMarkStale nat

record env =
  ldap3_available :: bool
  dir_bind :: "string option \<Rightarrow> string option \<Rightarrow> bool"
  dir_search :: "string \<Rightarrow> string \<Rightarrow> search_scope \<Rightarrow> string list \<Rightarrow> ldap_entry list outcome"
  db_fault :: "db_op \<Rightarrow> bool"
  account_by_email :: "string \<Rightarrow> string option outcome"
  account_save :: "string \<Rightarrow> string option \<Rightarrow> string option outcome"
  config_defaults :: ldap_config

text \<open>The mutable world: both tables, the id supply and the network log.\<close>

record world =
  configs :: "ldap_config list"
  users :: "ldap_user list"
  next_id :: nat
  net_log :: "net_event list"

section \<open>\<open>LDAPConfigService\<close>\<close>

definition get_active_config :: "env \<Rightarrow> world \<Rightarrow> ldap_config option" where
  "get_active_config e w =
     (if db_fault e OpGetActiveConfig then None
      else find enabled (configs w))"

definition update_sync_status ::
  "env \<Rightarrow> nat \<Rightarrow> string \<Rightarrow> datetime option \<Rightarrow> world \<Rightarrow> bool \<times> world" where
  "update_sync_status e config_id status sync_time w =
     (if db_fault e (OpUpdateSyncStatus config_id status) then (False, w)
      else
        (let upd = (\<lambda>c. if cfg_id c = config_id
                         then (case sync_time of
                                 None \<Rightarrow> c\<lparr>cfg_sync_status := status\<rparr>
                               | Some t \<Rightarrow> c\<lparr>cfg_sync_status := status, cfg_last_sync_time := Some t\<rparr>)
                         else c)
         in (list_ex (\<lambda>c. cfg_id c = config_id) (configs w), w\<lparr>configs := map upd (configs w)\<rparr>)))"

section \<open>\<open>LDAPConnectionManager\<close>\<close>

text \<open>
  \<open>connect(bind_dn, password)\<close>: the identity and the secret each fall back to the
  configured one when the argument is falsy. The bind attempt is logged with its
  result; an \<open>LDAPException\<close> of the bind is the result \<open>False\<close>.
\<close>

definition connect ::
  "env \<Rightarrow> ldap_config \<Rightarrow> string option \<Rightarrow> string option \<Rightarrow> world \<Rightarrow> bool \<times> world" where
  "connect e config a_bind_dn a_password w =
     (let user_dn = py_or a_bind_dn (bind_dn config);
          user_password = py_or a_password (bind_password config);
          ok = dir_bind e user_dn user_password
      in (ok, w\<lparr>net_log := net_log w @ [Bind user_dn user_password ok]\<rparr>))"

definition disconnect :: "world \<Rightarrow> world" where
  "disconnect w = w\<lparr>net_log := net_log w @ [Unbind]\<rparr>"

definition search ::
  "env \<Rightarrow> string \<Rightarrow> string \<Rightarrow> search_scope \<Rightarrow> string list \<Rightarrow> world
     \<Rightarrow> ldap_entry list outcome \<times> world" where
  "search e base flt scope attrs w =
     (dir_search e base flt scope attrs,
      w\<lparr>net_log := net_log w @ [Search base flt scope attrs]\<rparr>)"

section \<open>\<open>LDAPAuthenticator\<close>\<close>

text \<open>The authenticator and the sync service each cache the configuration they read.\<close>

record service =
  self_config :: "ldap_config option"

definition get_config :: "env \<Rightarrow> service \<Rightarrow> world \<Rightarrow> ldap_config option \<times> service" where
  "get_config e s w =
     (case self_config s of
        Some c \<Rightarrow> (Some c, s)
      | None \<Rightarrow> (let c = get_active_config e w in (c, s\<lparr>self_config := c\<rparr>)))"

definition get_attr_value :: "ldap_entry \<Rightarrow> string \<Rightarrow> string option" where
  "get_attr_value entry attr_name =
     (case map_of (entry_attributes entry) attr_name of
        None \<Rightarrow> None
      | Some (Single v) \<Rightarrow> (if v = [] then None else Some v)
      | Some (Multi vs) \<Rightarrow> (case vs of [] \<Rightarrow> None | v # _ \<Rightarrow> Some v))"

text \<open>The search filter of \<open>_find_user_dn\<close>: the two placeholders, then the default.\<close>

definition build_search_filter :: "ldap_config \<Rightarrow> string \<Rightarrow> py_exn + string" where
  "build_search_filter config username =
     (let flt = search_filter config
      in if contains ''{}'' flt then py_format flt [username] Map.empty
         else if contains ''{username}'' flt then py_format flt [] [''username'' \<mapsto> username]
         else Inr (''('' @ mapping_get (attr_mapping config) ''username'' ''uid''
                   @ ''='' @ username @ '')''))"

definition find_user_dn ::
  "env \<Rightarrow> service \<Rightarrow> string \<Rightarrow> world \<Rightarrow> (py_exn + string option) \<times> service \<times> world" where
  "find_user_dn e s username w =
     (let (cfg, s1) = get_config e s w in
      case cfg of
        None \<Rightarrow> (Inr None, s1, w)
      | Some config \<Rightarrow>
          if truthy (user_dn_template config) then
            (map_sum id Some (py_format (the (user_dn_template config)) [] [''username'' \<mapsto> username]),
             s1, w)
          else
            (case build_search_filter config username of
                  Inl x \<Rightarrow> (Inl x, s1, w)
                | Inr f \<Rightarrow>
                    (let (res, w1) = search e (search_base config) f SUBTREE [''dn''] w in
                     case res of
                       Returned entries \<Rightarrow>
                         (case entries of
                            [] \<Rightarrow> (Inr None, s1, w1)
                          | en # _ \<Rightarrow> (Inr (Some (entry_dn en)), s1, w1))
                     | RaisedLDAP \<Rightarrow> (Inr None, s1, w1)
                     | RaisedOther \<Rightarrow> (Inl OtherException, s1, w1))))"

definition mapped_attrs :: "ldap_config \<Rightarrow> string list" where
  "mapped_attrs config = map snd (attr_mapping config) @ [''dn'', ''cn'']"

definition entry_fields :: "ldap_config \<Rightarrow> ldap_entry \<Rightarrow> bool option \<Rightarrow> ldap_data" where
  "entry_fields config entry active =
     \<lparr> d_dn = Some (entry_dn entry),
       d_username = Some (get_attr_value entry (mapping_get (attr_mapping config) ''username'' ''uid'')),
       d_email = Some (get_attr_value entry (mapping_get (attr_mapping config) ''email'' ''mail'')),
       d_nickname = Some (get_attr_value entry (mapping_get (attr_mapping config) ''nickname'' ''displayName'')),
       d_first_name = Some (get_attr_value entry (mapping_get (attr_mapping config) ''first_name'' ''givenName'')),
       d_last_name = Some (get_attr_value entry (mapping_get (attr_mapping config) ''last_name'' ''sn'')),
       d_is_active = active,
       d_attributes = Some (map (\<lambda>(a, _). (a, get_attr_value entry a)) (entry_attributes entry)) \<rparr>"

definition get_user_info ::
  "env \<Rightarrow> service \<Rightarrow> string \<Rightarrow> world \<Rightarrow> (py_exn + ldap_data option) \<times> service \<times> world" where
  "get_user_info e s user_dn w =
     (let (cfg, s1) = get_config e s w in
      case cfg of
        None \<Rightarrow> (Inr None, s1, w)
      | Some config \<Rightarrow>
          (let (res, w1) = search e user_dn ''(objectClass=*)'' BASE (mapped_attrs config) w in
           case res of
             Returned entries \<Rightarrow>
               (case entries of
                  [] \<Rightarrow> (Inr None, s1, w1)
                | en # _ \<Rightarrow> (Inr (Some (entry_fields config en None)), s1, w1))
           | RaisedLDAP \<Rightarrow> (Inr None, s1, w1)
           | RaisedOther \<Rightarrow> (Inl OtherException, s1, w1)))"

text \<open>
  \<open>authenticate_user\<close>. Every exception raised inside the \<open>try\<close> block is caught by one
  of its handlers, after which the method returns \<open>(False, None)\<close>; a \<open>with\<close> block
  unbinds its session on every exit, and the \<open>finally\<close> clause unbinds the user's session.
\<close>

definition authenticate_user ::
  "env \<Rightarrow> service \<Rightarrow> string \<Rightarrow> string \<Rightarrow> world
     \<Rightarrow> (bool \<times> ldap_data option) \<times> service \<times> world" where
  "authenticate_user e s username password w =
     (let (cfg, s1) = get_config e s w in
      case cfg of
        None \<Rightarrow> ((False, None), s1, w)
      | Some config \<Rightarrow>
          if \<not> enabled config then ((False, None), s1, w)
          else if \<not> ldap3_available e then ((False, None), s1, w)
          else
            (let (ok1, w1) = connect e config None None w in
             if \<not> ok1 then ((False, None), s1, w1)
             else
               (let (r, s2, w2) = find_user_dn e s1 username w1;
                    w3 = disconnect w2
                in case r of
                     Inl x \<Rightarrow> ((False, None), s2, w3)
                   | Inr user_dn \<Rightarrow>
                       if \<not> truthy user_dn then ((False, None), s2, w3)
                       else
                         (let (ok2, w4) = connect e config user_dn (Some password) w3 in
                          if \<not> ok2 then ((False, None), s2, w4)
                          else
                            (let (ok3, w5) = connect e config None None w4 in
                             if \<not> ok3 then ((False, None), s2, disconnect w5)
                             else
                               (let (info, s3, w6) = get_user_info e s2 (the user_dn) w5;
                                    w7 = disconnect (disconnect w6)
                                in case info of
                                     Inr (Some i) \<Rightarrow> ((True, Some i), s3, w7)
                                   | _ \<Rightarrow> ((False, None), s3, w7)))))))"

section \<open>\<open>LDAPUserService\<close>\<close>

definition get_by_ldap_username :: "env \<Rightarrow> nat \<Rightarrow> string option \<Rightarrow> world \<Rightarrow> ldap_user option" where
  "get_by_ldap_username e config_id username w =
     (if db_fault e (OpGetByUsername config_id username) then None
      else find (\<lambda>u. ldap_config_id u = config_id \<and> ldap_username u = username) (users w))"

definition get_by_dn :: "env \<Rightarrow> nat \<Rightarrow> string \<Rightarrow> world \<Rightarrow> ldap_user option" where
  "get_by_dn e config_id dn w =
     (if db_fault e (OpGetByDn config_id dn) then None
      else find (\<lambda>u. ldap_config_id u = config_id \<and> ldap_dn u = dn) (users w))"

definition get_by_email :: "env \<Rightarrow> nat \<Rightarrow> string option \<Rightarrow> world \<Rightarrow> ldap_user option" where
  "get_by_email e config_id mail w =
     (if db_fault e (OpGetByEmail config_id mail) then None
      else find (\<lambda>u. ldap_config_id u = config_id \<and> email u = mail) (users w))"

text \<open>
  \<open>CommonService.get_by_id\<close> is not part of the LDAP sources; it is taken to return the
  row with that primary key, and nothing when there is none or the store raises.
\<close>

definition get_by_id :: "env \<Rightarrow> nat \<Rightarrow> world \<Rightarrow> ldap_user option" where
  "get_by_id e uid w =
     (if db_fault e (OpGetById uid) then None
      else find (\<lambda>u. lu_id u = uid) (users w))"

text \<open>\<open>d.get(key)\<close> for a key whose value may be \<open>None\<close>.\<close>

definition dict_get :: "'a option option \<Rightarrow> 'a option" where
  "dict_get v = (case v of None \<Rightarrow> None | Some x \<Rightarrow> x)"

text \<open>
  The first part of \<open>create_or_update_user\<close>: the \<open>if\<close>/\<open>elif\<close> chain that chooses
  one lookup by the first key present in \<open>ldap_data\<close>.
\<close>

definition existing_user_lookup :: "env \<Rightarrow> nat \<Rightarrow> ldap_data \<Rightarrow> world \<Rightarrow> ldap_user option" where
  "existing_user_lookup e config_id d w =
     (case d_dn d of
        Some dn \<Rightarrow> get_by_dn e config_id dn w
      | None \<Rightarrow>
          (case d_username d of
             Some username \<Rightarrow> get_by_ldap_username e config_id username w
           | None \<Rightarrow>
               (case d_email d of
                  Some mail \<Rightarrow> get_by_email e config_id mail w
                | None \<Rightarrow> None)))"

definition update_fields :: "ldap_data \<Rightarrow> datetime \<Rightarrow> ldap_user \<Rightarrow> ldap_user" where
  "update_fields d now u =
     u\<lparr> email := dict_get (d_email d),
        nickname := dict_get (d_nickname d),
        first_name := dict_get (d_first_name d),
        last_name := dict_get (d_last_name d),
        ldap_attributes := (case d_attributes d of None \<Rightarrow> [] | Some a \<Rightarrow> a),
        is_active := (case d_is_active d of None \<Rightarrow> True | Some b \<Rightarrow> b),
        last_sync_time := now,
        sync_status := ''synced'',
        update_date := now \<rparr>"

definition new_user :: "nat \<Rightarrow> nat \<Rightarrow> ldap_data \<Rightarrow> datetime \<Rightarrow> ldap_user" where
  "new_user uid config_id d now =
     \<lparr> lu_id = uid,
       ldap_config_id = config_id,
       ldap_dn = (case d_dn d of None \<Rightarrow> [] | Some dn \<Rightarrow> dn),
       ldap_username = (case d_username d of None \<Rightarrow> Some [] | Some x \<Rightarrow> x),
       email = dict_get (d_email d),
       nickname = dict_get (d_nickname d),
       first_name = dict_get (d_first_name d),
       last_name = dict_get (d_last_name d),
       ldap_attributes = (case d_attributes d of None \<Rightarrow> [] | Some a \<Rightarrow> a),
       is_active = (case d_is_active d of None \<Rightarrow> True | Some b \<Rightarrow> b),
       last_sync_time = now,
       sync_status = ''synced'',
       user_id = None,
       create_date = now,
       update_date = now \<rparr>"

definition create_or_update_user ::
  "env \<Rightarrow> nat \<Rightarrow> ldap_data \<Rightarrow> datetime \<Rightarrow> world \<Rightarrow> (ldap_user option \<times> bool) \<times> world" where
  "create_or_update_user e config_id d now w =
     (case existing_user_lookup e config_id d w of
        Some existing_user \<Rightarrow>
          if db_fault e (OpUpdateUser (lu_id existing_user)) then ((None, False), w)
          else
            (let w1 = w\<lparr>users := map (\<lambda>u. if lu_id u = lu_id existing_user
                                           then update_fields d now u else u) (users w)\<rparr>
             in ((get_by_id e (lu_id existing_user) w1, False), w1))
      | None \<Rightarrow>
          (let uid = next_id w;
               w1 = w\<lparr>next_id := Suc (next_id w)\<rparr>
           in if db_fault e (OpCreateUser config_id (case d_dn d of None \<Rightarrow> [] | Some dn \<Rightarrow> dn))
              then ((None, False), w1)
              else
                (let user = new_user uid config_id d now
                 in ((Some user, True), w1\<lparr>users := users w1 @ [user]\<rparr>))))"

definition stale_candidate :: "nat \<Rightarrow> string list \<Rightarrow> ldap_user \<Rightarrow> bool" where
  "stale_candidate config_id active_dns u =
     (ldap_config_id u = config_id \<and> ldap_dn u \<notin> set active_dns \<and> is_active u)"

definition mark_stale_users :: "env \<Rightarrow> nat \<Rightarrow> string list \<Rightarrow> datetime \<Rightarrow> world \<Rightarrow> nat \<times> world" where
  "mark_stale_users e config_id active_dns now w =
     (if db_fault e (OpMarkStale config_id) then (0, w)
      else
        (length (filter (stale_candidate config_id active_dns) (users w)),
         w\<lparr>users := map (\<lambda>u. if stale_candidate config_id active_dns u
                               then u\<lparr>is_active := False, sync_status := ''stale'', update_date := now\<rparr>
                               else u) (users w)\<rparr>))"

section \<open>\<open>LDAPSyncService\<close>\<close>

record stats =
  total_found :: nat
  created :: nat
  updated :: nat
  deactivated :: nat
  errors :: nat

definition get_all_ldap_users ::
  "env \<Rightarrow> service \<Rightarrow> world \<Rightarrow> (py_exn + ldap_data list) \<times> service \<times> world" where
  "get_all_ldap_users e s w =
     (let (cfg, s1) = get_config e s w in
      case cfg of
        None \<Rightarrow> (Inr [], s1, w)
      | Some config \<Rightarrow>
          (let (res, w1) = search e (search_base config) (search_filter config) SUBTREE
                             (mapped_attrs config) w in
           case res of
             Returned entries \<Rightarrow> (Inr (map (\<lambda>en. entry_fields config en (Some True)) entries), s1, w1)
           | RaisedLDAP \<Rightarrow> (Inr [], s1, w1)
           | RaisedOther \<Rightarrow> (Inl OtherException, s1, w1)))"

definition str_of :: "string option \<Rightarrow> string" where
  "str_of v = (case v of None \<Rightarrow> ''None'' | Some s \<Rightarrow> s)"

definition link_account :: "env \<Rightarrow> ldap_user \<Rightarrow> string \<Rightarrow> world \<Rightarrow> bool \<times> world" where
  "link_account e ldap_usr account w =
     (if db_fault e (OpLinkUser (lu_id ldap_usr)) then (False, w)
      else (True, w\<lparr>users := map (\<lambda>u. if lu_id u = lu_id ldap_usr
                                        then u\<lparr>user_id := Some account\<rparr> else u) (users w)\<rparr>))"

definition create_system_user :: "env \<Rightarrow> ldap_user \<Rightarrow> world \<Rightarrow> bool \<times> world" where
  "create_system_user e ldap_usr w =
     (let existing = (if truthy (email ldap_usr) then account_by_email e (the (email ldap_usr))
                      else Returned None)
      in case existing of
           Returned (Some account) \<Rightarrow> link_account e ldap_usr account w
         | Returned None \<Rightarrow>
             (case account_save e
                     (if truthy (email ldap_usr) then the (email ldap_usr)
                      else str_of (ldap_username ldap_usr) @ ''@ldap.local'')
                     (py_or (nickname ldap_usr) (ldap_username ldap_usr)) of
                Returned (Some account) \<Rightarrow> link_account e ldap_usr account w
              | _ \<Rightarrow> (False, w))
         | _ \<Rightarrow> (False, w))"

text \<open>
  The body of the loop over the enumerated entries. The state of the loop is the
  world, the list \<open>active_dns\<close> and the statistics.
\<close>

definition sync_entry ::
  "env \<Rightarrow> ldap_config \<Rightarrow> datetime \<Rightarrow> ldap_data \<Rightarrow> world \<times> string list \<times> stats
     \<Rightarrow> world \<times> string list \<times> stats" where
  "sync_entry e config now d acc =
     (case acc of (w, active_dns, st) \<Rightarrow>
        (let ((ldap_usr, was_created), w1) = create_or_update_user e (cfg_id config) d now w in
         case ldap_usr of
           None \<Rightarrow> (w1, active_dns, st\<lparr>errors := errors st + 1\<rparr>)
         | Some u \<Rightarrow>
             (case d_dn d of
                None \<Rightarrow> (w1, active_dns, st\<lparr>errors := errors st + 1\<rparr>)
              | Some dn \<Rightarrow>
                  if was_created then
                    (if auto_create_user config then snd (create_system_user e u w1) else w1,
                     active_dns @ [dn], st\<lparr>created := created st + 1\<rparr>)
                  else (w1, active_dns @ [dn], st\<lparr>updated := updated st + 1\<rparr>))))"

fun sync_entries ::
  "env \<Rightarrow> ldap_config \<Rightarrow> datetime \<Rightarrow> ldap_data list \<Rightarrow> world \<times> string list \<times> stats
     \<Rightarrow> world \<times> string list \<times> stats" where
  "sync_entries e config now [] acc = acc"
| "sync_entries e config now (d # ds) acc = sync_entries e config now ds (sync_entry e config now d acc)"

definition empty_stats :: stats where
  "empty_stats = \<lparr> total_found = 0, created = 0, updated = 0, deactivated = 0, errors = 0 \<rparr>"

text \<open>
  \<open>sync_users\<close>. The result \<open>(False, {})\<close> of the guards is \<open>(False, None)\<close>; every other
  result carries the statistics. An exception in the \<open>try\<close> block leaves the \<open>with\<close>
  block, which unbinds the session, and reaches the handler that writes \<open>error\<close>.
\<close>

definition sync_users ::
  "env \<Rightarrow> service \<Rightarrow> datetime \<Rightarrow> world \<Rightarrow> (bool \<times> stats option) \<times> service \<times> world" where
  "sync_users e s now w =
     (let (cfg, s1) = get_config e s w in
      case cfg of
        None \<Rightarrow> ((False, None), s1, w)
      | Some config \<Rightarrow>
          if \<not> enabled config then ((False, None), s1, w)
          else if \<not> sync_enabled config then ((False, None), s1, w)
          else if \<not> ldap3_available e then ((False, None), s1, w)
          else
            (let w1 = snd (update_sync_status e (cfg_id config) ''running'' None w);
                 (ok, w2) = connect e config None None w1
             in if \<not> ok then
                  ((False, Some empty_stats), s1,
                   snd (update_sync_status e (cfg_id config) ''error'' None w2))
                else
                  (let (r, s2, w3) = get_all_ldap_users e s1 w2 in
                   case r of
                     Inl x \<Rightarrow>
                       ((False, Some empty_stats), s2,
                        snd (update_sync_status e (cfg_id config) ''error'' None (disconnect w3)))
                   | Inr ldap_users \<Rightarrow>
                       (let st1 = empty_stats\<lparr>total_found := length ldap_users\<rparr>;
                            (w4, active_dns, st2) = sync_entries e config now ldap_users (w3, [], st1);
                            (n, w5) = mark_stale_users e (cfg_id config) active_dns now w4;
                            st3 = st2\<lparr>deactivated := n\<rparr>;
                            w6 = disconnect w5;
                            w7 = snd (update_sync_status e (cfg_id config) ''completed'' (Some now) w6)
                        in ((True, Some st3), s2, w7)))))"

section \<open>\<open>LDAPScheduler\<close>\<close>

text \<open>
  A \<open>datetime\<close> counts microseconds, the resolution of Python's \<open>datetime\<close>; the test
  \<open>(now - last_sync).total_seconds() >= sync_interval\<close> compares in that unit.
\<close>

definition total_seconds_ge :: "datetime \<Rightarrow> datetime \<Rightarrow> int \<Rightarrow> bool" where
  "total_seconds_ge now last_sync secs = (secs * 1000000 \<le> now - last_sync)"

record scheduler =
  sync_service :: service
  sched_last_sync_time :: "nat \<rightharpoonup> datetime"

text \<open>
  \<open>_check_and_sync\<close>. The first component of the result is the pair
  \<open>(success, stats)\<close> when the tick called \<open>sync_users\<close>, and \<open>None\<close> when it did not.
\<close>

definition check_and_sync ::
  "env \<Rightarrow> scheduler \<Rightarrow> datetime \<Rightarrow> world
     \<Rightarrow> (bool \<times> stats option) option \<times> scheduler \<times> world" where
  "check_and_sync e sch now w =
     (case get_active_config e w of
        None \<Rightarrow> (None, sch, w)
      | Some config \<Rightarrow>
          if \<not> enabled config then (None, sch, w)
          else if \<not> sync_enabled config then (None, sch, w)
          else
            (let last_sync = sched_last_sync_time sch (cfg_id config);
                 interval = max (sync_interval config) 30
             in if (case last_sync of None \<Rightarrow> True | Some t \<Rightarrow> total_seconds_ge now t interval) then
                  (let sch1 = sch\<lparr>sched_last_sync_time := (sched_last_sync_time sch)(cfg_id config \<mapsto> now)\<rparr>;
                       (res, s1, w1) = sync_users e (sync_service sch1) now w
                   in (Some res, sch1\<lparr>sync_service := s1\<rparr>, w1))
                else (None, sch, w)))"


section \<open>The configuration endpoint\<close>

text \<open>
  The JSON body of \<open>POST /config\<close>: each documented field may be absent. The request
  has passed \<open>login_required\<close> and \<open>validate_request\<close> when the body of the view runs.
\<close>

record config_request =
  r_name :: "string option"
  r_server_host :: "string option"
  r_server_port :: "int option"
  r_use_ssl :: "bool option"
  r_bind_dn :: "string option option"
  r_bind_password :: "string option option"
  r_search_base :: "string option"
  r_search_filter :: "string option"
  r_user_dn_template :: "string option option"
  r_attr_mapping :: "(string \<times> string) list option"
  r_enabled :: "bool option"
  r_auto_create_user :: "bool option"
  r_sync_enabled :: "bool option"
  r_sync_interval :: "int option"

definition field_or :: "'a option \<Rightarrow> 'a \<Rightarrow> 'a" where
  "field_or v d = (case v of None \<Rightarrow> d | Some x \<Rightarrow> x)"

definition apply_request :: "config_request \<Rightarrow> ldap_config \<Rightarrow> ldap_config" where
  "apply_request req c =
     c\<lparr> cfg_name := field_or (r_name req) (cfg_name c),
        server_host := field_or (r_server_host req) (server_host c),
        server_port := field_or (r_server_port req) (server_port c),
        use_ssl := field_or (r_use_ssl req) (use_ssl c),
        bind_dn := field_or (r_bind_dn req) (bind_dn c),
        bind_password := field_or (r_bind_password req) (bind_password c),
        search_base := field_or (r_search_base req) (search_base c),
        search_filter := field_or (r_search_filter req) (search_filter c),
        user_dn_template := field_or (r_user_dn_template req) (user_dn_template c),
        attr_mapping := field_or (r_attr_mapping req) (attr_mapping c),
        enabled := field_or (r_enabled req) (enabled c),
        auto_create_user := field_or (r_auto_create_user req) (auto_create_user c),
        sync_enabled := field_or (r_sync_enabled req) (sync_enabled c),
        sync_interval := field_or (r_sync_interval req) (sync_interval c) \<rparr>"

definition update_config :: "env \<Rightarrow> nat \<Rightarrow> config_request \<Rightarrow> world \<Rightarrow> bool \<times> world" where
  "update_config e config_id req w =
     (if db_fault e (OpUpdateConfig config_id) then (False, w)
      else (list_ex (\<lambda>c. cfg_id c = config_id) (configs w),
            w\<lparr>configs := map (\<lambda>c. if cfg_id c = config_id then apply_request req c else c)
                             (configs w)\<rparr>))"

definition create_config :: "env \<Rightarrow> config_request \<Rightarrow> world \<Rightarrow> ldap_config option \<times> world" where
  "create_config e req w =
     (let config_id = next_id w;
          w1 = w\<lparr>next_id := Suc (next_id w)\<rparr>
      in if db_fault e OpCreateConfig then (None, w1)
         else
           (let c = apply_request req ((config_defaults e)\<lparr>cfg_id := config_id\<rparr>)
            in (Some c, w1\<lparr>configs := configs w1 @ [c]\<rparr>)))"

datatype response =
    AuthenticationError
  | DataError
  | ServerError
  | ConfigUpdated
  | ConfigCreated ldap_config

definition create_or_update_config ::
  "env \<Rightarrow> bool \<Rightarrow> config_request \<Rightarrow> world \<Rightarrow> response \<times> world" where
  "create_or_update_config e is_superuser req w =
     (if \<not> is_superuser then (AuthenticationError, w)
      else
        (let interval = field_or (r_sync_interval req) 30 in
         if interval < 30 then (DataError, w)
         else
           (case get_active_config e w of
              Some existing_config \<Rightarrow>
                (let (success, w1) = update_config e (cfg_id existing_config) req w
                 in if success then (ConfigUpdated, w1) else (ServerError, w1))
            | None \<Rightarrow>
                (let (c, w1) = create_config e req w
                 in case c of
                      Some cfg \<Rightarrow> (ConfigCreated cfg, w1)
                    | None \<Rightarrow> (ServerError, w1)))))"

section \<open>An example deployment\<close>

text \<open>
  The configuration of \<open>example/ldap_example.py\<close>, a directory with two users and the
  service account, and a store that never raises.
\<close>

definition example_config :: ldap_config where
  "example_config =
     \<lparr> cfg_id = 1, cfg_name = ''demo'', server_host = ''ldap.example.com'', server_port = 389,
       use_ssl = False,
       bind_dn = Some ''cn=admin,dc=example,dc=com'',
       bind_password = Some ''admin_password'',
       search_base = ''ou=users,dc=example,dc=com'',
       search_filter = ''(objectClass=person)'',
       user_dn_template = Some ''uid={username},ou=users,dc=example,dc=com'',
       attr_mapping = [(''username'', ''uid''), (''email'', ''mail''), (''nickname'', ''displayName''),
                       (''first_name'', ''givenName''), (''last_name'', ''sn'')],
       enabled = True, auto_create_user = False, sync_enabled = True, sync_interval = 30,
       cfg_sync_status = ''idle'', cfg_last_sync_time = None \<rparr>"

definition alice_entry :: ldap_entry where
  "alice_entry =
     \<lparr> entry_dn = ''uid=alice,ou=users,dc=example,dc=com'',
       entry_attributes = [(''uid'', Single ''alice''), (''mail'', Single ''alice@example.com''),
                           (''displayName'', Single ''Alice'')] \<rparr>"

definition bob_entry :: ldap_entry where
  "bob_entry =
     \<lparr> entry_dn = ''uid=bob,ou=users,dc=example,dc=com'',
       entry_attributes = [(''uid'', Single ''bob''), (''mail'', Multi [''bob@example.com'', ''b@example.com''])] \<rparr>"

definition admin_entry :: ldap_entry where
  "admin_entry =
     \<lparr> entry_dn = ''cn=admin,dc=example,dc=com'',
       entry_attributes = [(''cn'', Single ''admin'')] \<rparr>"

definition example_bind :: "string option \<Rightarrow> string option \<Rightarrow> bool" where
  "example_bind dn pw =
     (if dn = Some ''cn=admin,dc=example,dc=com'' then pw = Some ''admin_password''
      else if dn = Some ''uid=alice,ou=users,dc=example,dc=com'' then pw = Some ''alice_secret''
      else False)"

definition example_search ::
  "string \<Rightarrow> string \<Rightarrow> search_scope \<Rightarrow> string list \<Rightarrow> ldap_entry list outcome" where
  "example_search base flt scope attrs =
     (if scope = BASE then
        (if base = entry_dn alice_entry then Returned [alice_entry]
         else if base = entry_dn admin_entry then Returned [admin_entry]
         else Returned [])
      else if flt = ''(objectClass=person)'' then Returned [alice_entry, bob_entry]
      else if flt = ''(uid=alice)'' then Returned [alice_entry]
      else Returned [])"

definition example_env :: env where
  "example_env =
     \<lparr> ldap3_available = True, dir_bind = example_bind, dir_search = example_search,
       db_fault = (\<lambda>_. False),
       account_by_email = (\<lambda>_. Returned None),
       account_save = (\<lambda>_ _. Returned None),
       config_defaults = example_config \<rparr>"

definition example_world :: world where
  "example_world = \<lparr> configs = [example_config], users = [], next_id = 2, net_log = [] \<rparr>"

definition fresh_service :: service where
  "fresh_service = \<lparr> self_config = None \<rparr>"

text \<open>
  Two variants of the configuration: one without a DN template, whose filter has the
  positional placeholder, and one whose template builds DNs directly under the suffix.
\<close>

definition search_config :: ldap_config where
  "search_config = example_config\<lparr>user_dn_template := None, search_filter := ''(uid={})''\<rparr>"

definition cn_template_config :: ldap_config where
  "cn_template_config = example_config\<lparr>user_dn_template := Some ''cn={username},dc=example,dc=com''\<rparr>"

text \<open>A request that asks for a sync interval of ten seconds.\<close>

definition short_interval_request :: config_request where
  "short_interval_request =
     \<lparr> r_name = Some ''demo'', r_server_host = Some ''ldap.example.com'', r_server_port = Some 389,
       r_use_ssl = None, r_bind_dn = None, r_bind_password = None,
       r_search_base = Some ''ou=users,dc=example,dc=com'', r_search_filter = None,
       r_user_dn_template = None, r_attr_mapping = None, r_enabled = None,
       r_auto_create_user = None, r_sync_enabled = None, r_sync_interval = Some 10 \<rparr>"

text \<open>
  A stored interval of ten seconds, and a scheduler whose last recorded attempt for
  that configuration was at time 0.
\<close>

definition short_interval_world :: world where
  "short_interval_world = example_world\<lparr>configs := [example_config\<lparr>sync_interval := 10\<rparr>]\<rparr>"

definition example_scheduler :: scheduler where
  "example_scheduler = \<lparr> sync_service = fresh_service, sched_last_sync_time = [1 \<mapsto> 0] \<rparr>"

text \<open>
  A mirror that holds Alice under her former DN, and the dictionary of her entry after
  she moved: the DN is new, the username and the email are the stored ones.
\<close>

definition former_alice :: ldap_user where
  "former_alice =
     \<lparr> lu_id = 0, ldap_config_id = 1, ldap_dn = ''uid=alice,ou=staff,dc=example,dc=com'',
       ldap_username = Some ''alice'', email = Some ''alice@example.com'', nickname = Some ''Alice'',
       first_name = None, last_name = None, ldap_attributes = [], is_active = True,
       last_sync_time = 0, sync_status = ''synced'', user_id = None, create_date = 0,
       update_date = 0 \<rparr>"

definition mirror_world :: world where
  "mirror_world = example_world\<lparr>users := [former_alice]\<rparr>"

definition moved_alice :: ldap_data where
  "moved_alice = entry_fields example_config alice_entry (Some True)"

section \<open>The lookup precedence as the specification words it\<close>

text \<open>
  The specification's reading of the lookup: by distinguished name, else by external
  username, else by email, the first lookup that finds a record wins.
\<close>

definition lookup_precedence_spec :: "env \<Rightarrow> nat \<Rightarrow> ldap_data \<Rightarrow> world \<Rightarrow> ldap_user option" where
  "lookup_precedence_spec e config_id d w =
     (case (case d_dn d of Some dn \<Rightarrow> get_by_dn e config_id dn w | None \<Rightarrow> None) of
        Some u \<Rightarrow> Some u
      | None \<Rightarrow>
          (case (case d_username d of Some n \<Rightarrow> get_by_ldap_username e config_id n w | None \<Rightarrow> None) of
             Some u \<Rightarrow> Some u
           | None \<Rightarrow> (case d_email d of Some m \<Rightarrow> get_by_email e config_id m w | None \<Rightarrow> None)))"


















section \<open>Relations between the rows of two worlds\<close>



definition covered :: "nat \<Rightarrow> world \<Rightarrow> string \<Rightarrow> bool" where
  "covered cid w dn = list_ex (\<lambda>u. ldap_config_id u = cid \<and> ldap_dn u = dn) (users w)"

definition ids_ok :: "world \<Rightarrow> bool" where
  "ids_ok w = (distinct (map lu_id (users w)) \<and> list_all (\<lambda>u. lu_id u < next_id w) (users w))"

definition active_within :: "nat \<Rightarrow> string set \<Rightarrow> world \<Rightarrow> bool" where
  "active_within cid D w =
     list_all (\<lambda>u. ldap_dn u \<in> D \<or> ldap_config_id u \<noteq> cid \<or> \<not> is_active u) (users w)"

definition store_reliable :: "env \<Rightarrow> bool" where
  "store_reliable e = (\<forall>op. \<not> db_fault e op)"

section \<open>Resolution of the user's DN\<close>

lemma get_config_pair:
  "fst (get_config e s w) = Some config \<Longrightarrow> \<exists>s1. get_config e s w = (Some config, s1)"
  by (cases "get_config e s w") simp

lemma get_config_cached:
  "get_config e s w = (Some config, s1) \<Longrightarrow> get_config e s1 w' = (Some config, s1)"
  by (auto simp: get_config_def Let_def split: option.splits)

text \<open>
  Claim C9. With a DN template configured, \<open>_find_user_dn\<close> formats the template with
  the username and sends no search: the network log is unchanged. Without a template
  the search filter is the configured filter formatted positionally when it contains
  \<open>{}\<close>, else formatted by keyword when it contains \<open>{username}\<close>, else the equality
  filter on the mapped username attribute (default \<open>uid\<close>); one search with that filter
  is sent under the search base, and the result is the DN of the first entry, or no DN
  when no entry matches.
\<close>

theorem find_user_dn_resolution:
  assumes cfg: "fst (get_config e s w) = Some config"
  shows "(truthy (user_dn_template config) \<longrightarrow>
            fst (find_user_dn e s username w) =
              map_sum id Some (py_format (the (user_dn_template config)) [] [''username'' \<mapsto> username])
          \<and> net_log (snd (snd (find_user_dn e s username w))) = net_log w)
       \<and> (\<not> truthy (user_dn_template config) \<longrightarrow>
            (contains ''{}'' (search_filter config) \<longrightarrow>
               build_search_filter config username = py_format (search_filter config) [username] Map.empty)
          \<and> (\<not> contains ''{}'' (search_filter config) \<and> contains ''{username}'' (search_filter config) \<longrightarrow>
               build_search_filter config username =
                 py_format (search_filter config) [] [''username'' \<mapsto> username])
          \<and> (\<not> contains ''{}'' (search_filter config) \<and> \<not> contains ''{username}'' (search_filter config) \<longrightarrow>
               build_search_filter config username =
                 Inr (''('' @ mapping_get (attr_mapping config) ''username'' ''uid'' @ ''='' @ username @ '')''))
          \<and> (\<forall>f. build_search_filter config username = Inr f \<longrightarrow>
                 net_log (snd (snd (find_user_dn e s username w))) =
                   net_log w @ [Search (search_base config) f SUBTREE [''dn'']]
               \<and> fst (find_user_dn e s username w) =
                   (case dir_search e (search_base config) f SUBTREE [''dn''] of
                      Returned [] \<Rightarrow> Inr None
                    | Returned (en # _) \<Rightarrow> Inr (Some (entry_dn en))
                    | RaisedLDAP \<Rightarrow> Inr None
                    | RaisedOther \<Rightarrow> Inl OtherException)))"
proof -
  from cfg obtain s1 where g: "get_config e s w = (Some config, s1)"
    using get_config_pair by blast
  have tmpl: "truthy (user_dn_template config) \<Longrightarrow>
      find_user_dn e s username w =
        (map_sum id Some (py_format (the (user_dn_template config)) [] [''username'' \<mapsto> username]), s1, w)"
    by (simp add: find_user_dn_def g)
  have srch: "\<not> truthy (user_dn_template config) \<Longrightarrow> build_search_filter config username = Inr f \<Longrightarrow>
      find_user_dn e s username w =
        ((case dir_search e (search_base config) f SUBTREE [''dn''] of
            Returned [] \<Rightarrow> Inr None
          | Returned (en # _) \<Rightarrow> Inr (Some (entry_dn en))
          | RaisedLDAP \<Rightarrow> Inr None
          | RaisedOther \<Rightarrow> Inl OtherException), s1,
         w\<lparr>net_log := net_log w @ [Search (search_base config) f SUBTREE [''dn'']]\<rparr>)" for f
    by (simp add: find_user_dn_def g search_def split: outcome.splits list.splits)
  show ?thesis
    using tmpl srch by (simp add: build_search_filter_def)
qed

theorem find_user_dn_resolution_witness:
  "fst (find_user_dn example_env fresh_service ''alice'' example_world) =
     Inr (Some ''uid=alice,ou=users,dc=example,dc=com'')
   \<and> net_log (snd (snd (find_user_dn example_env fresh_service ''alice'' example_world))) = []
   \<and> fst (find_user_dn example_env fresh_service ''alice'' (example_world\<lparr>configs := [search_config]\<rparr>)) =
     Inr (Some ''uid=alice,ou=users,dc=example,dc=com'')
   \<and> net_log (snd (snd (find_user_dn example_env fresh_service ''alice''
        (example_world\<lparr>configs := [search_config]\<rparr>)))) =
     [Search ''ou=users,dc=example,dc=com'' ''(uid=alice)'' SUBTREE [''dn'']]"
proof -
  have c1: "fst (get_config example_env fresh_service example_world) = Some example_config"
    by code_simp
  have t1: "truthy (user_dn_template example_config)"
    by code_simp
  have f1: "py_format (the (user_dn_template example_config)) [] [''username'' \<mapsto> ''alice'']
              = Inr ''uid=alice,ou=users,dc=example,dc=com''"
    by code_simp
  have l1: "net_log example_world = []"
    by code_simp
  have c2: "fst (get_config example_env fresh_service (example_world\<lparr>configs := [search_config]\<rparr>))
              = Some search_config"
    by code_simp
  have t2: "\<not> truthy (user_dn_template search_config)"
    by code_simp
  have f2: "build_search_filter search_config ''alice'' = Inr ''(uid=alice)''"
    by code_simp
  have b2: "search_base search_config = ''ou=users,dc=example,dc=com''"
    by code_simp
  have d2: "dir_search example_env ''ou=users,dc=example,dc=com'' ''(uid=alice)'' SUBTREE [''dn'']
              = Returned [alice_entry]"
    by code_simp
  have a2: "entry_dn alice_entry = ''uid=alice,ou=users,dc=example,dc=com''"
    by code_simp
  have l2: "net_log (example_world\<lparr>configs := [search_config]\<rparr>) = []"
    by code_simp
  from find_user_dn_resolution [OF c1, of "''alice''"] t1
  have p1: "fst (find_user_dn example_env fresh_service ''alice'' example_world) =
     Inr (Some ''uid=alice,ou=users,dc=example,dc=com'')
   \<and> net_log (snd (snd (find_user_dn example_env fresh_service ''alice'' example_world))) = []"
    by (simp add: f1 l1)
  from find_user_dn_resolution [OF c2, of "''alice''"] t2 f2
  have p2: "fst (find_user_dn example_env fresh_service ''alice'' (example_world\<lparr>configs := [search_config]\<rparr>)) =
     Inr (Some ''uid=alice,ou=users,dc=example,dc=com'')
   \<and> net_log (snd (snd (find_user_dn example_env fresh_service ''alice''
        (example_world\<lparr>configs := [search_config]\<rparr>)))) =
     [Search ''ou=users,dc=example,dc=com'' ''(uid=alice)'' SUBTREE [''dn'']]"
    by (simp add: b2 d2 a2 l2)
  from p1 p2 show ?thesis by simp
qed

section \<open>Guards and the two binds of \<open>authenticate_user\<close>\<close>






text \<open>
  Claim C1, evaluated where it fails. The template resolves the username \<open>admin\<close> to
  the DN of the service account; the directory rejects a bind as that DN with the empty
  password; \<open>authenticate_user\<close> called with the empty password binds with the service
  account's password instead and reports success.
\<close>

theorem empty_password_authenticates:
  "fst (fst (authenticate_user example_env fresh_service ''admin'' []
         (example_world\<lparr>configs := [cn_template_config]\<rparr>))) = True
   \<and> fst (find_user_dn example_env fresh_service ''admin''
         (example_world\<lparr>configs := [cn_template_config]\<rparr>)) = Inr (Some ''cn=admin,dc=example,dc=com'')
   \<and> dir_bind example_env (Some ''cn=admin,dc=example,dc=com'') (Some []) = False"
  by code_simp

section \<open>The sync interval floor\<close>

text \<open>
  Claim C6. A configuration request whose \<open>sync_interval\<close> is below 30 is rejected and
  the world is left as it was: no stored configuration changes. A scheduler tick that
  finds a last recorded attempt at time \<open>t\<close> for the active configuration calls
  \<open>sync_users\<close> exactly when the configuration is enabled and sync-enabled and at least
  \<open>max(sync_interval, 30)\<close> seconds have passed since \<open>t\<close>; so whatever interval is
  stored, a tick that syncs is at least 30 seconds after the last recorded attempt.
\<close>

theorem sync_interval_floor:
  "(r_sync_interval req = Some v \<and> v < 30 \<longrightarrow>
      snd (create_or_update_config e is_superuser req w) = w
    \<and> fst (create_or_update_config e is_superuser req w) =
        (if is_superuser then DataError else AuthenticationError))
 \<and> (get_active_config e w = Some config \<and> sched_last_sync_time sch (cfg_id config) = Some t \<longrightarrow>
      ((fst (check_and_sync e sch now w) \<noteq> None) =
         (enabled config \<and> sync_enabled config
          \<and> max (sync_interval config) 30 * 1000000 \<le> now - t))
    \<and> (fst (check_and_sync e sch now w) \<noteq> None \<longrightarrow> 30 * 1000000 \<le> now - t))"
proof -
  have a: "r_sync_interval req = Some v \<Longrightarrow> v < 30 \<Longrightarrow>
      create_or_update_config e is_superuser req w =
        (if is_superuser then DataError else AuthenticationError, w)"
    by (simp add: create_or_update_config_def field_or_def)
  have b: "(fst (check_and_sync e sch now w) \<noteq> None) =
         (enabled config \<and> sync_enabled config
          \<and> max (sync_interval config) 30 * 1000000 \<le> now - t)"
    if "get_active_config e w = Some config" "sched_last_sync_time sch (cfg_id config) = Some t"
    using that
    by (simp add: check_and_sync_def total_seconds_ge_def Let_def split: prod.splits)
  have c: "max (sync_interval config) 30 * 1000000 \<le> now - t \<Longrightarrow> 30 * 1000000 \<le> now - t"
    by (simp add: max_def split: if_splits)
  show ?thesis using a b c by simp
qed

theorem sync_interval_floor_witness:
  "create_or_update_config example_env True short_interval_request example_world =
     (DataError, example_world)
   \<and> fst (check_and_sync example_env example_scheduler 29999999 short_interval_world) = None
   \<and> fst (check_and_sync example_env example_scheduler 30000000 short_interval_world) \<noteq> None"
proof -
  have r: "r_sync_interval short_interval_request = Some 10" by code_simp
  have g: "get_active_config example_env short_interval_world = Some (example_config\<lparr>sync_interval := 10\<rparr>)"
    by code_simp
  have l: "sched_last_sync_time example_scheduler (cfg_id (example_config\<lparr>sync_interval := 10\<rparr>)) = Some 0"
    by code_simp
  have en: "enabled (example_config\<lparr>sync_interval := 10\<rparr>)" "sync_enabled (example_config\<lparr>sync_interval := 10\<rparr>)"
    by code_simp+
  from sync_interval_floor [where req = short_interval_request and v = 10 and e = example_env
      and is_superuser = True and w = example_world] r
  have 1: "create_or_update_config example_env True short_interval_request example_world =
     (DataError, example_world)"
    by (simp add: prod_eq_iff)
  let ?c = "example_config\<lparr>sync_interval := 10\<rparr>"
  from sync_interval_floor [where req = short_interval_request and v = 10 and is_superuser = True
      and e = example_env and w = short_interval_world and config = ?c
      and sch = example_scheduler and t = 0 and now = 29999999] g l
  have "(fst (check_and_sync example_env example_scheduler 29999999 short_interval_world) \<noteq> None) =
          (enabled ?c \<and> sync_enabled ?c \<and> max (sync_interval ?c) 30 * 1000000 \<le> 29999999 - 0)"
    by blast
  moreover have "\<not> max (sync_interval ?c) 30 * 1000000 \<le> (29999999::int) - 0"
    by simp
  ultimately have 2: "fst (check_and_sync example_env example_scheduler 29999999 short_interval_world) = None"
    by blast
  from sync_interval_floor [where req = short_interval_request and v = 10 and is_superuser = True
      and e = example_env and w = short_interval_world and config = ?c
      and sch = example_scheduler and t = 0 and now = 30000000] g l
  have "(fst (check_and_sync example_env example_scheduler 30000000 short_interval_world) \<noteq> None) =
          (enabled ?c \<and> sync_enabled ?c \<and> max (sync_interval ?c) 30 * 1000000 \<le> 30000000 - 0)"
    by blast
  moreover have "max (sync_interval ?c) 30 * 1000000 \<le> (30000000::int) - 0"
    by simp
  ultimately have 3: "fst (check_and_sync example_env example_scheduler 30000000 short_interval_world) \<noteq> None"
    using en by blast
  from 1 2 3 show ?thesis by simp
qed

section \<open>The lookup of an existing record\<close>

text \<open>
  Claim C2 as stated fails. The mirror holds Alice under her former DN; her entry now
  carries a new DN with the same username and email. The lookup of
  \<open>create_or_update_user\<close> finds nothing, where the precedence of the specification
  would fall back to the username and find her record; a second record is created.
\<close>

theorem lookup_falls_back_counterexample:
  "existing_user_lookup example_env 1 moved_alice mirror_world = None
   \<and> lookup_precedence_spec example_env 1 moved_alice mirror_world = Some former_alice
   \<and> snd (fst (create_or_update_user example_env 1 moved_alice 5 mirror_world)) = True
   \<and> length (users (snd (create_or_update_user example_env 1 moved_alice 5 mirror_world))) = 2"
  by code_simp

text \<open>
  Claim C2, amended. \<open>create_or_update_user\<close> performs one lookup, chosen by the first
  key present in the dictionary: by DN when it has the key \<open>dn\<close>, else by username when
  it has the key \<open>username\<close>, else by email when it has the key \<open>email\<close>, else none.
  Every dictionary built from a directory entry has the key \<open>dn\<close>, so a reconciliation
  upsert looks up by DN only; when no record matches the DN (and the store accepts the
  insert) a new record is created, whatever the username and the email are.
\<close>

theorem lookup_by_first_present_key:
  "(d_dn d = Some dn \<longrightarrow> existing_user_lookup e config_id d w = get_by_dn e config_id dn w)
 \<and> (d_dn d = None \<and> d_username d = Some n \<longrightarrow>
      existing_user_lookup e config_id d w = get_by_ldap_username e config_id n w)
 \<and> (d_dn d = None \<and> d_username d = None \<and> d_email d = Some m \<longrightarrow>
      existing_user_lookup e config_id d w = get_by_email e config_id m w)
 \<and> (d_dn d = None \<and> d_username d = None \<and> d_email d = None \<longrightarrow>
      existing_user_lookup e config_id d w = None)
 \<and> d_dn (entry_fields config entry active) = Some (entry_dn entry)
 \<and> (d_dn d = Some dn \<and> get_by_dn e config_id dn w = None
      \<and> \<not> db_fault e (OpCreateUser config_id dn) \<longrightarrow>
      fst (create_or_update_user e config_id d now w) = (Some (new_user (next_id w) config_id d now), True)
    \<and> users (snd (create_or_update_user e config_id d now w)) =
        users w @ [new_user (next_id w) config_id d now])"
  by (simp add: existing_user_lookup_def entry_fields_def create_or_update_user_def Let_def)

theorem lookup_by_first_present_key_witness:
  "existing_user_lookup example_env 1 moved_alice mirror_world = None
   \<and> users (snd (create_or_update_user example_env 1 moved_alice 5 mirror_world)) =
       [former_alice, new_user 2 1 moved_alice 5]"
proof -
  have d: "d_dn moved_alice = Some ''uid=alice,ou=users,dc=example,dc=com''" by code_simp
  have g: "get_by_dn example_env 1 ''uid=alice,ou=users,dc=example,dc=com'' mirror_world = None"
    by code_simp
  have f: "\<not> db_fault example_env (OpCreateUser 1 ''uid=alice,ou=users,dc=example,dc=com'')"
    by code_simp
  have u: "users mirror_world = [former_alice]" "next_id mirror_world = 2" by code_simp+
  from lookup_by_first_present_key [where d = moved_alice
      and dn = "''uid=alice,ou=users,dc=example,dc=com''" and e = example_env and config_id = 1
      and w = mirror_world and now = 5] d g f
  show ?thesis by (simp add: u)
qed

section \<open>Reconciliation\<close>

subsection \<open>What each phase of \<open>sync_users\<close> leaves unchanged\<close>










lemma find_Some_in: "find P xs = Some x \<Longrightarrow> x \<in> set xs \<and> P x"
  by (auto simp: find_Some_iff)

lemma existing_by_dn:
  "d_dn d = Some dn \<Longrightarrow> existing_user_lookup e cid d w = Some ex \<Longrightarrow>
     ex \<in> set (users w) \<and> ldap_config_id ex = cid \<and> ldap_dn ex = dn"
  by (auto simp: existing_user_lookup_def get_by_dn_def split: if_splits dest: find_Some_in)

lemma existing_in_users:
  "existing_user_lookup e cid d w = Some ex \<Longrightarrow> ex \<in> set (users w)"
  by (auto simp: existing_user_lookup_def get_by_dn_def get_by_ldap_username_def get_by_email_def
      split: if_splits option.splits dest: find_Some_in)






















subsection \<open>The staleness step\<close>











subsection \<open>Failures during a pass\<close>








end
